theory Spec2Isabelle
  imports Main "HOL-Library.Sublist" "HOL-Library.Multiset"
begin

section \<open>GitHub Project Daily Snapshot: a model of \<open>scripts/update-projects.js\<close>\<close>

text \<open>
  The script fetches the repositories of one GitHub account, keeps those that pass the
  configured filters and for which one of three detection tiers finds a GitHub Pages
  site, formats them, sorts them and writes them as one JSON array.

  JavaScript strings are modelled as \<open>string\<close>, JavaScript numbers that hold integers
  (star counts, time values) as \<open>int\<close> with \<open>None\<close> of \<open>int option\<close> for \<open>NaN\<close>, HTTP
  status codes as \<open>nat\<close>, a nullable JSON field as an \<open>option\<close>. An \<open>async\<close> function
  returns \<open>error + 'a\<close> (\<open>Inl\<close>: the promise rejects) together with the list of network
  requests it issued, in order. The network is a function from the request to the event
  the script observes for it. Console output is not modelled.
\<close>

subsection \<open>Configuration and records\<close>

text \<open>
  The \<open>config\<close> object (lines 23-30), as already read from the environment: an unset
  token is the empty string, and \<open>minStars\<close> is the integer \<open>parseInt\<close> has read.
\<close>

record config =
  username :: string
  token :: string
  outputFile :: string
  filterForks :: bool
  filterArchived :: bool
  minStars :: int

text \<open>The object \<open>formatProjectData\<close> returns (lines 142-154).\<close>

record project =
  name :: string
  description :: "string option"
  url :: string
  github :: string
  language :: "string option"
  stars :: int
  forks :: int
  updatedAt :: string
  createdAt :: string
  topics :: "string list"
  homepage :: "string option"

text \<open>
  A repository object of the GitHub API, with the fields the script reads. It is declared
  after \<open>project\<close>, so the unqualified \<open>name\<close>, \<open>description\<close>, \<open>language\<close>, \<open>topics\<close>
  and \<open>homepage\<close> are the repository's and the project's are written \<open>project.name\<close>
  and so on.
\<close>

record repository =
  name :: string
  description :: "string option"
  html_url :: string
  homepage :: "string option"
  language :: "string option"
  stargazers_count :: int
  forks_count :: int
  updated_at :: string
  created_at :: string
  topics :: "string list option"
  fork :: bool
  archived :: bool

subsection \<open>The network\<close>

datatype http_method = GET | HEAD

record request =
  req_method :: http_method
  req_url :: string
  req_headers :: "(string \<times> string) list"
  req_timeout :: "nat option"

text \<open>
  What \<open>httpsGet\<close> can observe: the \<open>'error'\<close> event of the request, or a response that
  has ended, with its status code, the accumulated body text and what \<open>JSON.parse\<close> makes
  of that text (\<open>None\<close> when it throws). Every request is taken to end in one of the
  two; a connection that stays open for ever is not modelled.
\<close>

datatype 'a http_event = RequestError | Response nat string "'a option"

text \<open>
  What \<open>testPagesURL\<close> can observe first: a response, the \<open>'error'\<close> event or the
  \<open>'timeout'\<close> event. The first event settles the promise; later ones change nothing.
\<close>

datatype probe_event = StatusCode nat | ProbeError | ProbeTimeout

datatype error = NetworkError | HttpError nat string | ParseError

text \<open>
  The world outside the script: the three endpoints it talks to and the runtime's
  \<open>Date\<close> parser (\<open>None\<close> is an invalid date, whose time value is \<open>NaN\<close>).
\<close>

record env =
  api_repos :: "request \<Rightarrow> repository list http_event"
  api_pages :: "request \<Rightarrow> unit http_event"
  pages_site :: "request \<Rightarrow> probe_event"
  Date_parse :: "string \<Rightarrow> int option"

text \<open>The request \<open>httpsGet\<close> builds (lines 40-48); the caller's headers come last.\<close>

definition get_request :: "string \<Rightarrow> (string \<times> string) list \<Rightarrow> request" where
  "get_request u hs =
     \<lparr>req_method = GET, req_url = u,
      req_headers = [(''User-Agent'', ''Project-Daily-Snapshot''),
                     (''Accept'', ''application/vnd.github.v3+json'')] @ hs,
      req_timeout = None\<rparr>"

text \<open>\<open>httpsGet\<close> (lines 38-64).\<close>

definition httpsGet ::
  "(request \<Rightarrow> 'a http_event) \<Rightarrow> string \<Rightarrow> (string \<times> string) list \<Rightarrow> (error + 'a) \<times> request list" where
  "httpsGet net u hs =
     (let req = get_request u hs in
      (case net req of
         RequestError \<Rightarrow> Inl NetworkError
       | Response statusCode data parsed \<Rightarrow>
           if 200 \<le> statusCode \<and> statusCode < 300
           then (case parsed of Some v \<Rightarrow> Inr v | None \<Rightarrow> Inl ParseError)
           else Inl (HttpError statusCode data),
       [req]))"

definition REPOS_API :: "config \<Rightarrow> string" where
  "REPOS_API cfg =
     ''https://api.github.com/users/'' @ username cfg @ ''/repos?per_page=100&type=owner&sort=updated''"

definition auth_headers :: "config \<Rightarrow> (string \<times> string) list" where
  "auth_headers cfg = [(''Authorization'', ''Bearer '' @ token cfg)]"

definition pages_api_url :: "config \<Rightarrow> string \<Rightarrow> string" where
  "pages_api_url cfg repoName =
     ''https://api.github.com/repos/'' @ username cfg @ ''/'' @ repoName @ ''/pages''"

text \<open>\<open>hasGitHubPagesAPI\<close> (lines 69-83): no token, no call; any rejection is caught.\<close>

definition hasGitHubPagesAPI :: "config \<Rightarrow> env \<Rightarrow> string \<Rightarrow> (error + bool) \<times> request list" where
  "hasGitHubPagesAPI cfg w repoName =
     (if token cfg = [] then (Inr False, [])
      else (case httpsGet (api_pages w) (pages_api_url cfg repoName) (auth_headers cfg) of
              (Inr _, made) \<Rightarrow> (Inr True, made)
            | (Inl _, made) \<Rightarrow> (Inr False, made)))"

text \<open>
  The probe of \<open>testPagesURL\<close> (lines 90-98). GitHub account and repository names
  consist of letters, digits, \<open>-\<close>, \<open>_\<close> and \<open>.\<close>, so the URL is well-formed and
  \<open>https.get\<close> does not throw on it.
\<close>

definition probe_request :: "config \<Rightarrow> string \<Rightarrow> request" where
  "probe_request cfg repoName =
     \<lparr>req_method = HEAD,
      req_url = ''https://'' @ username cfg @ ''.github.io/'' @ repoName @ ''/'',
      req_headers = [(''User-Agent'', ''Project-Daily-Snapshot'')],
      req_timeout = Some 5000\<rparr>"

text \<open>\<open>testPagesURL\<close> (lines 88-110): the promise has no \<open>reject\<close>; each event resolves it.\<close>

definition testPagesURL :: "config \<Rightarrow> env \<Rightarrow> string \<Rightarrow> (error + bool) \<times> request list" where
  "testPagesURL cfg w repoName =
     (let req = probe_request cfg repoName in
      (case pages_site w req of
         StatusCode statusCode \<Rightarrow> Inr (200 \<le> statusCode \<and> statusCode < 400)
       | ProbeError \<Rightarrow> Inr False
       | ProbeTimeout \<Rightarrow> Inr False,
       [req]))"

subsection \<open>The pattern tier\<close>

text \<open>
  Every pattern of \<open>pagesPatterns\<close> is a literal followed by \<open>$\<close>, with no flags; it is
  kept as its literal. \<open>regex_test lit s\<close> is \<open>/lit$/.test(s)\<close>: the search tries each
  start position from the left, and a position matches when the literal is all that is
  left of the input there.
\<close>

fun regex_test :: "string \<Rightarrow> string \<Rightarrow> bool" where
  "regex_test lit [] = (lit = [])"
| "regex_test lit (c # cs) = (lit = c # cs \<or> regex_test lit cs)"

definition pagesPatterns :: "string list" where
  "pagesPatterns =
     [''.github.io'', ''-homepage'', ''-portfolio'', ''-website'', ''-site'', ''-demo'', ''-docs'']"

text \<open>\<open>likelyHasPages\<close> (lines 116-128).\<close>

definition likelyHasPages :: "repository \<Rightarrow> bool" where
  "likelyHasPages repo = list_ex (\<lambda>pattern. regex_test pattern (name repo)) pagesPatterns"

subsection \<open>The formatter\<close>

text \<open>\<open>String.prototype.includes\<close>: the needle occurs at some position of the string.\<close>

fun str_includes :: "string \<Rightarrow> string \<Rightarrow> bool" where
  "str_includes [] sub = (sub = [])"
| "str_includes (c # cs) sub = (prefix sub (c # cs) \<or> str_includes cs sub)"

text \<open>
  \<open>a || b\<close> on a nullable string: \<open>null\<close>, \<open>undefined\<close> and the empty string are falsy.
\<close>

definition truthy :: "string option \<Rightarrow> bool" where
  "truthy v = (case v of None \<Rightarrow> False | Some s \<Rightarrow> s \<noteq> [])"

definition js_or :: "string option \<Rightarrow> string option \<Rightarrow> string option" where
  "js_or a b = (if truthy a then a else b)"

text \<open>\<open>formatProjectData\<close> (lines 133-155). An array is truthy even when empty.\<close>

definition formatProjectData :: "config \<Rightarrow> repository \<Rightarrow> project" where
  "formatProjectData cfg repo =
     (let pagesUrl =
            (if str_includes (name repo) (username cfg @ ''.github.io'')
             then ''https://'' @ username cfg @ ''.github.io/''
             else ''https://'' @ username cfg @ ''.github.io/'' @ name repo @ ''/'')
      in \<lparr>project.name = name repo,
          project.description = js_or (description repo) (Some ''A GitHub project''),
          url = pagesUrl,
          github = html_url repo,
          project.language = js_or (language repo) (Some ''Various''),
          stars = stargazers_count repo,
          forks = forks_count repo,
          updatedAt = updated_at repo,
          createdAt = created_at repo,
          project.topics = (case topics repo of None \<Rightarrow> [] | Some ts \<Rightarrow> ts),
          project.homepage = js_or (homepage repo) None\<rparr>)"

subsection \<open>The loop of \<open>main\<close>\<close>

text \<open>The three filters at the head of the loop body (lines 181-192), in their order.\<close>

datatype skip_reason = SkipFork | SkipArchived | SkipStars

definition applyFilters :: "config \<Rightarrow> repository \<Rightarrow> skip_reason option" where
  "applyFilters cfg repo =
     (if filterForks cfg \<and> fork repo then Some SkipFork
      else if filterArchived cfg \<and> archived repo then Some SkipArchived
      else if stargazers_count repo < minStars cfg then Some SkipStars
      else None)"

text \<open>The values \<open>detectionMethod\<close> takes (it is only logged).\<close>

datatype detection =
    NoMethod | API | API_not_found | API_error error
  | URL_test | URL_test_not_found | URL_test_error error | Pattern_match

text \<open>
  The detection part of the loop body (lines 196-227): \<open>hasPages\<close>, \<open>detectionMethod\<close>
  and the requests issued. Each \<open>try\<close>/\<open>catch\<close> is a case on the awaited result.
\<close>

definition checkPages ::
  "config \<Rightarrow> env \<Rightarrow> repository \<Rightarrow> (error + bool \<times> detection) \<times> request list" where
  "checkPages cfg w repo =
     (let (hasPages1, method1, made1) =
            (if token cfg \<noteq> [] then
               (case hasGitHubPagesAPI cfg w (name repo) of
                  (Inr found, made) \<Rightarrow> (found, if found then API else API_not_found, made)
                | (Inl e, made) \<Rightarrow> (False, API_error e, made))
             else (False, NoMethod, []));
          (hasPages2, method2, made2) =
            (if \<not> hasPages1 then
               (case testPagesURL cfg w (name repo) of
                  (Inr found, made) \<Rightarrow>
                     (found, if found then URL_test else URL_test_not_found, made1 @ made)
                | (Inl e, made) \<Rightarrow> (hasPages1, URL_test_error e, made1 @ made))
             else (hasPages1, method1, made1))
      in if \<not> hasPages2 \<and> likelyHasPages repo
         then (Inr (True, Pattern_match), made2)
         else (Inr (hasPages2, method2), made2))"

text \<open>
  One iteration of the \<open>for\<close> loop (lines 179-236) on the array \<open>projects\<close>: \<open>continue\<close>
  leaves it as it is and issues nothing. An error would leave the loop for the handler
  of \<open>main\<close>.
\<close>

definition loop_body ::
  "config \<Rightarrow> env \<Rightarrow> repository \<Rightarrow> project list \<Rightarrow> (error + project list) \<times> request list" where
  "loop_body cfg w repo projects =
     (case applyFilters cfg repo of
        Some reason \<Rightarrow> (Inr projects, [])
      | None \<Rightarrow>
          (case checkPages cfg w repo of
             (Inl e, made) \<Rightarrow> (Inl e, made)
           | (Inr (hasPages, detectionMethod), made) \<Rightarrow>
               if hasPages then (Inr (projects @ [formatProjectData cfg repo]), made)
               else (Inr projects, made)))"

fun main_loop ::
  "config \<Rightarrow> env \<Rightarrow> repository list \<Rightarrow> project list \<Rightarrow> (error + project list) \<times> request list" where
  "main_loop cfg w [] projects = (Inr projects, [])"
| "main_loop cfg w (repo # rest) projects =
     (case loop_body cfg w repo projects of
        (Inl e, made) \<Rightarrow> (Inl e, made)
      | (Inr projects', made) \<Rightarrow>
          (case main_loop cfg w rest projects' of (r, made') \<Rightarrow> (r, made @ made')))"

subsection \<open>Sorting and writing\<close>

text \<open>
  The comparator of lines 239-244. \<open>new Date(s)\<close> has the time value \<open>Date_parse s\<close>; the
  difference of two dates is \<open>NaN\<close> when either is invalid.
\<close>

definition compareProjects :: "(string \<Rightarrow> int option) \<Rightarrow> project \<Rightarrow> project \<Rightarrow> int option" where
  "compareProjects parse a b =
     (if stars b \<noteq> stars a then Some (stars b - stars a)
      else (case (parse (updatedAt b), parse (updatedAt a)) of
              (Some tb, Some ta) \<Rightarrow> Some (tb - ta)
            | _ \<Rightarrow> None))"

text \<open>
  \<open>Array.prototype.sort\<close> with a comparator. ECMAScript reads a \<open>NaN\<close> from the
  comparator as \<open>+0\<close> and requires the sort to be stable, which fixes the result for every
  consistent comparator; a stable insertion sort computes it: \<open>x\<close> goes before the first
  \<open>y\<close> that the comparator does not put before \<open>x\<close>.
\<close>

definition sort_before :: "('a \<Rightarrow> 'a \<Rightarrow> int option) \<Rightarrow> 'a \<Rightarrow> 'a \<Rightarrow> bool" where
  "sort_before cmp x y = (case cmp x y of None \<Rightarrow> True | Some v \<Rightarrow> v \<le> 0)"

fun sort_insert :: "('a \<Rightarrow> 'a \<Rightarrow> int option) \<Rightarrow> 'a \<Rightarrow> 'a list \<Rightarrow> 'a list" where
  "sort_insert cmp x [] = [x]"
| "sort_insert cmp x (y # ys) =
     (if sort_before cmp x y then x # y # ys else y # sort_insert cmp x ys)"

definition Array_sort :: "('a \<Rightarrow> 'a \<Rightarrow> int option) \<Rightarrow> 'a list \<Rightarrow> 'a list" where
  "Array_sort cmp xs = foldr (sort_insert cmp) xs []"

text \<open>
  What a run leaves behind: the exit code of the process, the files (a path holds the
  array that was serialised into it) and the requests issued.
\<close>

record outcome =
  exit_code :: nat
  files :: "string \<rightharpoonup> project list"
  requests :: "request list"

text \<open>
  \<open>main\<close> (lines 160-279). Everything runs inside one \<open>try\<close>; its handler calls
  \<open>process.exit(1)\<close>. The output path is taken as resolved, and \<open>writeFileSync\<close> replaces
  the file's content with the serialised array. Creating the output directory and a
  write that fails are not modelled.
\<close>

definition main :: "config \<Rightarrow> env \<Rightarrow> (string \<rightharpoonup> project list) \<Rightarrow> outcome" where
  "main cfg w fs =
     (let headers = (if token cfg \<noteq> [] then auth_headers cfg else []) in
      (case httpsGet (api_repos w) (REPOS_API cfg) headers of
         (Inl e, made) \<Rightarrow> \<lparr>exit_code = 1, files = fs, requests = made\<rparr>
       | (Inr repos, made) \<Rightarrow>
           (case main_loop cfg w repos [] of
              (Inl e, made') \<Rightarrow> \<lparr>exit_code = 1, files = fs, requests = made @ made'\<rparr>
            | (Inr projects, made') \<Rightarrow>
                \<lparr>exit_code = 0,
                 files = fs(outputFile cfg \<mapsto> Array_sort (compareProjects (Date_parse w)) projects),
                 requests = made @ made'\<rparr>)))"

text \<open>The first request of \<open>main\<close> (line 170).\<close>

definition list_request :: "config \<Rightarrow> request" where
  "list_request cfg =
     get_request (REPOS_API cfg) (if token cfg \<noteq> [] then auth_headers cfg else [])"

subsection \<open>Example data\<close>

text \<open>A configuration without a token, some repositories and a world that serves them.\<close>

definition example_config :: config where
  "example_config =
     \<lparr>username = ''Chriszhang6'', token = [], outputFile = ''projects.json'',
      filterForks = True, filterArchived = True, minStars = 0\<rparr>"

definition example_repo :: "string \<Rightarrow> int \<Rightarrow> string \<Rightarrow> repository" where
  "example_repo n s t =
     \<lparr>name = n, description = None, html_url = ''https://github.com/Chriszhang6/'' @ n,
      homepage = Some [], language = Some ''HTML'', stargazers_count = s, forks_count = 0,
      updated_at = t, created_at = ''2023-01-01T00:00:00Z'', topics = None,
      fork = False, archived = False\<rparr>"

definition example_repos :: "repository list" where
  "example_repos =
     [example_repo ''foo-docs'' 3 ''2024-01-01T00:00:00Z'',
      (example_repo ''bar'' 9 ''2024-01-01T00:00:00Z'')\<lparr>archived := True\<rparr>,
      example_repo ''app'' 5 ''2024-01-01T00:00:00Z'',
      example_repo ''other.github.io'' 5 ''2024-06-01T00:00:00Z'',
      example_repo ''notes'' 7 ''2024-06-01T00:00:00Z'']"

definition example_env :: env where
  "example_env =
     \<lparr>api_repos = (\<lambda>req. Response 200 [] (Some example_repos)),
      api_pages = (\<lambda>req. Response 404 [] None),
      pages_site = (\<lambda>req. if req_url req = ''https://Chriszhang6.github.io/app/''
                              then StatusCode 200 else ProbeTimeout),
      Date_parse = (\<lambda>s. if s = ''2024-01-01T00:00:00Z'' then Some 1704067200000
                           else if s = ''2024-06-01T00:00:00Z'' then Some 1717200000000
                           else None)\<rparr>"

definition example_token_config :: config where
  "example_token_config = example_config\<lparr>token := ''ghp_example''\<rparr>"

section \<open>Properties\<close>

subsection \<open>The pattern tier\<close>

lemma regex_test_suffix: "regex_test lit s = suffix lit s"
  by (induction s) (auto simp: suffix_Cons)

lemma likelyHasPages_iff:
  "likelyHasPages repo \<longleftrightarrow>
     suffix ''.github.io'' (name repo) \<or> suffix ''-homepage'' (name repo) \<or>
     suffix ''-portfolio'' (name repo) \<or> suffix ''-website'' (name repo) \<or>
     suffix ''-site'' (name repo) \<or> suffix ''-demo'' (name repo) \<or> suffix ''-docs'' (name repo)"
  by (simp add: likelyHasPages_def pagesPatterns_def regex_test_suffix)

text \<open>
  Claim C1, as the code has it: the pattern tier matches exactly the names that end with
  \<open>.github.io\<close> or with one of the six suffixes \<open>-homepage\<close>, \<open>-portfolio\<close>,
  \<open>-website\<close>, \<open>-site\<close>, \<open>-demo\<close>, \<open>-docs\<close> (case-sensitive); the name
  \<open>{account}.github.io\<close> is one of them for every account. The function never reads
  the account.
\<close>

theorem pattern_tier_suffixes:
  "(likelyHasPages repo \<longleftrightarrow>
      suffix ''.github.io'' (name repo) \<or> suffix ''-homepage'' (name repo) \<or>
      suffix ''-portfolio'' (name repo) \<or> suffix ''-website'' (name repo) \<or>
      suffix ''-site'' (name repo) \<or> suffix ''-demo'' (name repo) \<or>
      suffix ''-docs'' (name repo))
   \<and> likelyHasPages (repo\<lparr>name := username cfg @ ''.github.io''\<rparr>)"
proof
  show "likelyHasPages (repo\<lparr>name := username cfg @ ''.github.io''\<rparr>)"
    by (simp add: likelyHasPages_iff suffix_def)
qed (rule likelyHasPages_iff)

theorem pattern_tier_suffixes_witness:
  "likelyHasPages (example_repo ''foo-docs'' 3 ''2024-01-01T00:00:00Z'')
   \<and> \<not> likelyHasPages (example_repo ''app'' 5 ''2024-01-01T00:00:00Z'')
   \<and> likelyHasPages (example_repo ''Chriszhang6.github.io'' 0 ''2024-01-01T00:00:00Z'')
   \<and> \<not> likelyHasPages (example_repo ''foo-DOCS'' 3 ''2024-01-01T00:00:00Z'')"
  using pattern_tier_suffixes [of "example_repo ''foo-docs'' 3 ''2024-01-01T00:00:00Z''" example_config]
    pattern_tier_suffixes [of "example_repo ''foo-DOCS'' 3 ''2024-01-01T00:00:00Z''" example_config]
    pattern_tier_suffixes [of "example_repo ''app'' 5 ''2024-01-01T00:00:00Z''" example_config]
    pattern_tier_suffixes [of "example_repo ''Chriszhang6.github.io'' 0 ''2024-01-01T00:00:00Z''" example_config]
  by (simp add: example_repo_def example_config_def suffix_to_prefix)

text \<open>
  Claim C1 as stated fails: for the account \<open>Chriszhang6\<close> the name \<open>other.github.io\<close>
  is matched, and it is neither \<open>Chriszhang6.github.io\<close> nor a name with one of the six
  suffixes.
\<close>

theorem pattern_tier_exact_name_counterexample:
  "\<not> (likelyHasPages (example_repo ''other.github.io'' 5 ''2024-06-01T00:00:00Z'') \<longleftrightarrow>
        name (example_repo ''other.github.io'' 5 ''2024-06-01T00:00:00Z'')
          = username example_config @ ''.github.io''
        \<or> suffix ''-homepage'' (name (example_repo ''other.github.io'' 5 ''2024-06-01T00:00:00Z''))
        \<or> suffix ''-portfolio'' (name (example_repo ''other.github.io'' 5 ''2024-06-01T00:00:00Z''))
        \<or> suffix ''-website'' (name (example_repo ''other.github.io'' 5 ''2024-06-01T00:00:00Z''))
        \<or> suffix ''-site'' (name (example_repo ''other.github.io'' 5 ''2024-06-01T00:00:00Z''))
        \<or> suffix ''-demo'' (name (example_repo ''other.github.io'' 5 ''2024-06-01T00:00:00Z''))
        \<or> suffix ''-docs'' (name (example_repo ''other.github.io'' 5 ''2024-06-01T00:00:00Z'')))"
  by (simp add: likelyHasPages_def pagesPatterns_def example_repo_def example_config_def
      suffix_to_prefix)

subsection \<open>The formatter\<close>

lemma str_includes_sublist: "str_includes s sub = sublist sub s"
  by (induction s) (auto simp: sublist_Cons_right)

text \<open>
  Claim C7: the formatter emits the root URL \<open>https://{account}.github.io/\<close> when the
  repository name contains \<open>{account}.github.io\<close> as a substring, and
  \<open>https://{account}.github.io/{repoName}/\<close> otherwise; the repository named exactly
  \<open>{account}.github.io\<close> gets the root URL.
\<close>

theorem formatProjectData_url:
  "url (formatProjectData cfg repo) =
     (if \<exists>before after. name repo = before @ (username cfg @ ''.github.io'') @ after
      then ''https://'' @ username cfg @ ''.github.io/''
      else ''https://'' @ username cfg @ ''.github.io/'' @ name repo @ ''/'')
   \<and> url (formatProjectData cfg (repo\<lparr>name := username cfg @ ''.github.io''\<rparr>))
       = ''https://'' @ username cfg @ ''.github.io/''"
proof
  show "url (formatProjectData cfg (repo\<lparr>name := username cfg @ ''.github.io''\<rparr>))
       = ''https://'' @ username cfg @ ''.github.io/''"
    by (simp add: formatProjectData_def str_includes_sublist)
qed (simp add: formatProjectData_def str_includes_sublist sublist_def)

theorem formatProjectData_url_witness:
  "url (formatProjectData example_config (example_repo ''app'' 5 ''2024-01-01T00:00:00Z''))
     = ''https://Chriszhang6.github.io/app/''
   \<and> url (formatProjectData example_config
            (example_repo ''Chriszhang6.github.io'' 0 ''2024-01-01T00:00:00Z''))
     = ''https://Chriszhang6.github.io/''
   \<and> url (formatProjectData example_config
            (example_repo ''old-Chriszhang6.github.io-backup'' 0 ''2024-01-01T00:00:00Z''))
     = ''https://Chriszhang6.github.io/''"
proof -
  have a: "\<not> (\<exists>before after. ''app'' = before @ ''Chriszhang6.github.io'' @ after)"
  proof
    assume "\<exists>before after. ''app'' = before @ ''Chriszhang6.github.io'' @ after"
    then obtain before after where "''app'' = before @ ''Chriszhang6.github.io'' @ after"
      by blast
    then have "length ''app'' = length (before @ ''Chriszhang6.github.io'' @ after)"
      by (rule arg_cong)
    then show False by simp
  qed
  have b: "''old-Chriszhang6.github.io-backup'' = ''old-'' @ ''Chriszhang6.github.io'' @ ''-backup''"
    by simp
  have c: "\<exists>before after. ''old-Chriszhang6.github.io-backup'' = before @ ''Chriszhang6.github.io'' @ after"
    using b by blast
  have "''Chriszhang6.github.io'' = [] @ ''Chriszhang6.github.io'' @ []"
    by simp
  then have d: "\<exists>before after. ''Chriszhang6.github.io'' = before @ ''Chriszhang6.github.io'' @ after"
    by blast
  show ?thesis
    using a c d
      formatProjectData_url [of example_config "example_repo ''app'' 5 ''2024-01-01T00:00:00Z''"]
      formatProjectData_url [of example_config "example_repo ''Chriszhang6.github.io'' 0 ''2024-01-01T00:00:00Z''"]
      formatProjectData_url [of example_config "example_repo ''old-Chriszhang6.github.io-backup'' 0 ''2024-01-01T00:00:00Z''"]
    by (simp add: example_repo_def example_config_def)
qed

text \<open>
  Claim C8: when the description or the language of the repository is absent or empty,
  the formatter puts the fixed placeholder (\<open>A GitHub project\<close>, \<open>Various\<close>) in its
  place, and otherwise keeps the field; so neither field is null or empty in an emitted
  record.
\<close>

theorem formatProjectData_placeholders:
  "project.description (formatProjectData cfg repo) =
     (if description repo = None \<or> description repo = Some [] then Some ''A GitHub project''
      else description repo)
   \<and> project.language (formatProjectData cfg repo) =
     (if language repo = None \<or> language repo = Some [] then Some ''Various''
      else language repo)
   \<and> project.description (formatProjectData cfg repo) \<noteq> None
   \<and> project.description (formatProjectData cfg repo) \<noteq> Some []
   \<and> project.language (formatProjectData cfg repo) \<noteq> None
   \<and> project.language (formatProjectData cfg repo) \<noteq> Some []"
  by (auto simp: formatProjectData_def js_or_def truthy_def split: option.splits)

theorem formatProjectData_placeholders_witness:
  "project.description (formatProjectData example_config
      (example_repo ''app'' 5 ''2024-01-01T00:00:00Z'')) = Some ''A GitHub project''
   \<and> project.language (formatProjectData example_config
      ((example_repo ''app'' 5 ''2024-01-01T00:00:00Z'')\<lparr>language := Some []\<rparr>)) = Some ''Various''
   \<and> project.language (formatProjectData example_config
      (example_repo ''app'' 5 ''2024-01-01T00:00:00Z'')) = Some ''HTML''"
  using formatProjectData_placeholders [of example_config "example_repo ''app'' 5 ''2024-01-01T00:00:00Z''"]
    formatProjectData_placeholders [of example_config
      "(example_repo ''app'' 5 ''2024-01-01T00:00:00Z'')\<lparr>language := Some []\<rparr>"]
  by (simp add: example_repo_def)

text \<open>
  Claim C9, as the code has it: name, GitHub URL, star count, fork count, \<open>updatedAt\<close>
  and \<open>createdAt\<close> keep their input values and absent topics become the empty
  sequence; the homepage keeps its input value unless that is the empty string, which
  becomes \<open>null\<close> (\<open>repo.homepage || null\<close>).
\<close>

theorem formatProjectData_passes_fields:
  "project.name (formatProjectData cfg repo) = name repo
   \<and> github (formatProjectData cfg repo) = html_url repo
   \<and> stars (formatProjectData cfg repo) = stargazers_count repo
   \<and> forks (formatProjectData cfg repo) = forks_count repo
   \<and> updatedAt (formatProjectData cfg repo) = updated_at repo
   \<and> createdAt (formatProjectData cfg repo) = created_at repo
   \<and> project.topics (formatProjectData cfg repo) =
       (case topics repo of None \<Rightarrow> [] | Some ts \<Rightarrow> ts)
   \<and> project.homepage (formatProjectData cfg repo) =
       (if homepage repo = Some [] then None else homepage repo)"
  by (auto simp: formatProjectData_def js_or_def truthy_def split: option.splits)

theorem formatProjectData_passes_fields_witness:
  "project.homepage (formatProjectData example_config
      ((example_repo ''app'' 5 ''2024-01-01T00:00:00Z'')\<lparr>homepage := Some ''https://example.org''\<rparr>))
     = Some ''https://example.org''
   \<and> project.homepage (formatProjectData example_config
      (example_repo ''app'' 5 ''2024-01-01T00:00:00Z'')) = None
   \<and> project.topics (formatProjectData example_config
      (example_repo ''app'' 5 ''2024-01-01T00:00:00Z'')) = []
   \<and> stars (formatProjectData example_config
      (example_repo ''app'' 5 ''2024-01-01T00:00:00Z'')) = 5"
  using formatProjectData_passes_fields [of example_config "example_repo ''app'' 5 ''2024-01-01T00:00:00Z''"]
    formatProjectData_passes_fields [of example_config
      "(example_repo ''app'' 5 ''2024-01-01T00:00:00Z'')\<lparr>homepage := Some ''https://example.org''\<rparr>"]
  by (simp add: example_repo_def)

text \<open>
  Claim C9 as stated fails: a repository whose homepage is the empty string (what the
  API sends for a cleared homepage) is emitted with the homepage \<open>null\<close>.
\<close>

theorem homepage_unchanged_counterexample:
  "project.homepage (formatProjectData example_config
      ((example_repo ''app'' 5 ''2024-01-01T00:00:00Z'')\<lparr>homepage := Some ''''\<rparr>))
   \<noteq> homepage ((example_repo ''app'' 5 ''2024-01-01T00:00:00Z'')\<lparr>homepage := Some ''''\<rparr>)"
  by (simp add: formatProjectData_def js_or_def truthy_def example_repo_def)

subsection \<open>The network tiers and the detection\<close>

text \<open>
  Claim C3: the probe issues one \<open>HEAD\<close> request to
  \<open>https://{account}.github.io/{repoName}/\<close> with the timeout 5000; it resolves to
  \<open>true\<close> exactly when a response arrives with a status code in [200,400), and to
  \<open>false\<close> on any other status, on a network error and on the timeout. It never
  rejects.
\<close>

theorem testPagesURL_resolves:
  "snd (testPagesURL cfg w repoName) = [probe_request cfg repoName]
   \<and> req_method (probe_request cfg repoName) = HEAD
   \<and> req_url (probe_request cfg repoName)
       = ''https://'' @ username cfg @ ''.github.io/'' @ repoName @ ''/''
   \<and> req_timeout (probe_request cfg repoName) = Some 5000
   \<and> (fst (testPagesURL cfg w repoName) = Inr True) =
       (\<exists>s. pages_site w (probe_request cfg repoName) = StatusCode s \<and> 200 \<le> s \<and> s < 400)
   \<and> (fst (testPagesURL cfg w repoName) = Inr True
       \<or> fst (testPagesURL cfg w repoName) = Inr False)"
  by (auto simp: testPagesURL_def probe_request_def Let_def split: probe_event.splits)

theorem testPagesURL_resolves_witness:
  "fst (testPagesURL example_config example_env ''app'') = Inr True
   \<and> fst (testPagesURL example_config example_env ''foo-docs'') = Inr False
   \<and> snd (testPagesURL example_config example_env ''app'') =
       [\<lparr>req_method = HEAD, req_url = ''https://Chriszhang6.github.io/app/'',
         req_headers = [(''User-Agent'', ''Project-Daily-Snapshot'')],
         req_timeout = Some 5000\<rparr>]"
proof -
  have a: "pages_site example_env (probe_request example_config ''app'') = StatusCode 200"
    by (simp add: example_env_def probe_request_def example_config_def)
  have b: "pages_site example_env (probe_request example_config ''foo-docs'') = ProbeTimeout"
    by (simp add: example_env_def probe_request_def example_config_def)
  note app = testPagesURL_resolves [of example_config example_env "''app''"]
  note docs = testPagesURL_resolves [of example_config example_env "''foo-docs''"]
  have r1: "fst (testPagesURL example_config example_env ''app'') = Inr True"
    using app a by simp
  have r2: "fst (testPagesURL example_config example_env ''foo-docs'') = Inr False"
    using docs b by auto
  have r3: "snd (testPagesURL example_config example_env ''app'')
      = [probe_request example_config ''app'']"
    using app by simp
  show ?thesis
    using r1 r2 r3 by (simp add: probe_request_def example_config_def)
qed

lemma hasGitHubPagesAPI_result:
  "fst (hasGitHubPagesAPI cfg w repoName) =
     Inr (token cfg \<noteq> [] \<and>
          (\<exists>st body v. api_pages w (get_request (pages_api_url cfg repoName) (auth_headers cfg))
                = Response st body (Some v) \<and> 200 \<le> st \<and> st < 300))"
  by (auto simp: hasGitHubPagesAPI_def httpsGet_def Let_def
      split: http_event.splits option.splits)

lemma hasGitHubPagesAPI_requests:
  "snd (hasGitHubPagesAPI cfg w repoName) =
     (if token cfg = [] then []
      else [get_request (pages_api_url cfg repoName) (auth_headers cfg)])"
  by (auto simp: hasGitHubPagesAPI_def httpsGet_def Let_def
      split: http_event.splits option.splits)

lemma testPagesURL_result:
  "fst (testPagesURL cfg w repoName) =
     Inr (\<exists>s. pages_site w (probe_request cfg repoName) = StatusCode s \<and> 200 \<le> s \<and> s < 400)"
  by (auto simp: testPagesURL_def Let_def split: probe_event.splits)

lemma testPagesURL_requests:
  "snd (testPagesURL cfg w repoName) = [probe_request cfg repoName]"
  by (simp add: testPagesURL_def Let_def)

lemma checkPages_eq:
  "checkPages cfg w repo =
     (let a = (fst (hasGitHubPagesAPI cfg w (name repo)) = Inr True);
          p = (fst (testPagesURL cfg w (name repo)) = Inr True)
      in (Inr (a \<or> p \<or> likelyHasPages repo,
               if a then API else if p then URL_test
               else if likelyHasPages repo then Pattern_match else URL_test_not_found),
          snd (hasGitHubPagesAPI cfg w (name repo)) @
          (if a then [] else snd (testPagesURL cfg w (name repo)))))"
proof -
  obtain a ma where A: "hasGitHubPagesAPI cfg w (name repo) = (Inr a, ma)"
    using hasGitHubPagesAPI_result [of cfg w "name repo"]
    by (cases "hasGitHubPagesAPI cfg w (name repo)") auto
  obtain p mp where P: "testPagesURL cfg w (name repo) = (Inr p, mp)"
    using testPagesURL_result [of cfg w "name repo"]
    by (cases "testPagesURL cfg w (name repo)") auto
  have T: "token cfg = [] \<Longrightarrow> \<not> a \<and> ma = []"
    using A by (simp add: hasGitHubPagesAPI_def)
  show ?thesis
    using T by (cases "token cfg = []") (auto simp: checkPages_def A P Let_def)
qed

text \<open>
  Claim C2: the detection of one repository never fails (its result is always \<open>Inr\<close>).
  The API tier issues its request only when a token is configured and detects Pages only
  on a 2xx response with a JSON body; every other outcome of it counts as not detected.
  The probe is issued exactly when the API tier did not detect Pages, and the pattern
  tier decides, without a request, only when neither did. So at most two requests are
  issued, in this order.
\<close>

theorem checkPages_tiers:
  "fst (checkPages cfg w repo) =
     Inr (fst (hasGitHubPagesAPI cfg w (name repo)) = Inr True
            \<or> fst (testPagesURL cfg w (name repo)) = Inr True
            \<or> likelyHasPages repo,
          if fst (hasGitHubPagesAPI cfg w (name repo)) = Inr True then API
          else if fst (testPagesURL cfg w (name repo)) = Inr True then URL_test
          else if likelyHasPages repo then Pattern_match
          else URL_test_not_found)
   \<and> snd (checkPages cfg w repo) =
       (if token cfg = [] then []
        else [get_request (pages_api_url cfg (name repo)) (auth_headers cfg)]) @
       (if fst (hasGitHubPagesAPI cfg w (name repo)) = Inr True then []
        else [probe_request cfg (name repo)])
   \<and> length (snd (checkPages cfg w repo)) \<le> 2
   \<and> (fst (hasGitHubPagesAPI cfg w (name repo)) = Inr True) =
       (token cfg \<noteq> [] \<and>
        (\<exists>st body v. api_pages w (get_request (pages_api_url cfg (name repo)) (auth_headers cfg))
              = Response st body (Some v) \<and> 200 \<le> st \<and> st < 300))
   \<and> (fst (testPagesURL cfg w (name repo)) = Inr True) =
       (\<exists>s. pages_site w (probe_request cfg (name repo)) = StatusCode s \<and> 200 \<le> s \<and> s < 400)"
proof -
  have req: "snd (checkPages cfg w repo) =
       (if token cfg = [] then []
        else [get_request (pages_api_url cfg (name repo)) (auth_headers cfg)]) @
       (if fst (hasGitHubPagesAPI cfg w (name repo)) = Inr True then []
        else [probe_request cfg (name repo)])"
    by (simp add: checkPages_eq Let_def hasGitHubPagesAPI_requests testPagesURL_requests)
  have len: "length (snd (checkPages cfg w repo)) \<le> 2"
    unfolding req by simp
  have res: "fst (checkPages cfg w repo) =
     Inr (fst (hasGitHubPagesAPI cfg w (name repo)) = Inr True
            \<or> fst (testPagesURL cfg w (name repo)) = Inr True
            \<or> likelyHasPages repo,
          if fst (hasGitHubPagesAPI cfg w (name repo)) = Inr True then API
          else if fst (testPagesURL cfg w (name repo)) = Inr True then URL_test
          else if likelyHasPages repo then Pattern_match
          else URL_test_not_found)"
    by (simp add: checkPages_eq Let_def)
  have api: "(fst (hasGitHubPagesAPI cfg w (name repo)) = Inr True) =
       (token cfg \<noteq> [] \<and>
        (\<exists>st body v. api_pages w (get_request (pages_api_url cfg (name repo)) (auth_headers cfg))
              = Response st body (Some v) \<and> 200 \<le> st \<and> st < 300))"
    by (simp add: hasGitHubPagesAPI_result)
  have probe: "(fst (testPagesURL cfg w (name repo)) = Inr True) =
       (\<exists>s. pages_site w (probe_request cfg (name repo)) = StatusCode s \<and> 200 \<le> s \<and> s < 400)"
    by (simp add: testPagesURL_result)
  show ?thesis
    using res req len api probe by blast
qed

theorem checkPages_tiers_witness:
  "fst (checkPages example_token_config example_env (example_repo ''app'' 5 ''2024-01-01T00:00:00Z''))
     = Inr (True, URL_test)
   \<and> length (snd (checkPages example_token_config example_env
        (example_repo ''app'' 5 ''2024-01-01T00:00:00Z''))) = 2
   \<and> fst (checkPages example_token_config
        (example_env\<lparr>api_pages := (\<lambda>req. Response 200 [] (Some ()))\<rparr>)
        (example_repo ''app'' 5 ''2024-01-01T00:00:00Z''))
     = Inr (True, API)
   \<and> length (snd (checkPages example_token_config
        (example_env\<lparr>api_pages := (\<lambda>req. Response 200 [] (Some ()))\<rparr>)
        (example_repo ''app'' 5 ''2024-01-01T00:00:00Z''))) = 1
   \<and> checkPages example_config example_env (example_repo ''foo-docs'' 3 ''2024-01-01T00:00:00Z'')
     = (Inr (True, Pattern_match), [probe_request example_config ''foo-docs''])"
proof -
  let ?app = "example_repo ''app'' 5 ''2024-01-01T00:00:00Z''"
  let ?docs = "example_repo ''foo-docs'' 3 ''2024-01-01T00:00:00Z''"
  let ?env = "example_env\<lparr>api_pages := (\<lambda>req. Response 200 [] (Some ()))\<rparr>"
  have tok: "token example_token_config \<noteq> []" "token example_config = []"
    by (simp_all add: example_token_config_def example_config_def)
  have names: "name ?app = ''app''" "name ?docs = ''foo-docs''"
    by (simp_all add: example_repo_def)
  have user: "username example_token_config = ''Chriszhang6''" "username example_config = ''Chriszhang6''"
    by (simp_all add: example_token_config_def example_config_def)
  have probe_app: "pages_site example_env (probe_request example_token_config ''app'') = StatusCode 200"
    "pages_site ?env (probe_request example_token_config ''app'') = StatusCode 200"
    by (simp_all add: example_env_def probe_request_def user)
  have probe_docs: "pages_site example_env (probe_request example_config ''foo-docs'') = ProbeTimeout"
    by (simp add: example_env_def probe_request_def user)
  have api: "api_pages example_env r = Response 404 [] None" "api_pages ?env r = Response 200 [] (Some ())" for r
    by (simp_all add: example_env_def)
  have pat: "likelyHasPages ?docs"
    by (simp add: likelyHasPages_def pagesPatterns_def example_repo_def)
  note one = checkPages_tiers [of example_token_config example_env ?app]
  note two = checkPages_tiers [of example_token_config ?env ?app]
  note three = checkPages_tiers [of example_config example_env ?docs]
  have r1: "fst (checkPages example_token_config example_env ?app) = Inr (True, URL_test)"
    "length (snd (checkPages example_token_config example_env ?app)) = 2"
    using one tok names probe_app api by simp_all
  have r2: "fst (checkPages example_token_config ?env ?app) = Inr (True, API)"
    "length (snd (checkPages example_token_config ?env ?app)) = 1"
    using two tok names probe_app api by simp_all
  have r3: "fst (checkPages example_config example_env ?docs) = Inr (True, Pattern_match)"
    "snd (checkPages example_config example_env ?docs) = [probe_request example_config ''foo-docs'']"
    using three tok names probe_docs pat by simp_all
  show ?thesis
    using r1 r2 r3 by (simp add: prod_eq_iff)
qed

subsection \<open>The filter\<close>

text \<open>
  Claim C4: the filter rejects a repository exactly when forks are excluded and it is a
  fork, or archived repositories are excluded and it is archived, or its star count is
  strictly below the minimum. The iteration of a rejected repository issues no request
  and leaves the collected projects as they are: the loop goes on as if the repository
  were not in the list.
\<close>

theorem filter_rejects:
  "(applyFilters cfg repo \<noteq> None) =
     (filterForks cfg \<and> fork repo \<or> filterArchived cfg \<and> archived repo
      \<or> stargazers_count repo < minStars cfg)
   \<and> (applyFilters cfg repo \<noteq> None \<longrightarrow>
        loop_body cfg w repo projects = (Inr projects, [])
        \<and> main_loop cfg w (repo # rest) projects = main_loop cfg w rest projects)"
  by (auto simp: applyFilters_def loop_body_def split: prod.splits)

theorem filter_rejects_witness:
  "applyFilters example_config ((example_repo ''bar'' 9 ''2024-01-01T00:00:00Z'')\<lparr>archived := True\<rparr>)
     = Some SkipArchived
   \<and> loop_body example_config example_env
        ((example_repo ''bar'' 9 ''2024-01-01T00:00:00Z'')\<lparr>archived := True\<rparr>) [] = (Inr [], [])
   \<and> applyFilters (example_config\<lparr>minStars := 4\<rparr>) (example_repo ''foo-docs'' 3 ''2024-01-01T00:00:00Z'')
     = Some SkipStars
   \<and> snd (loop_body (example_config\<lparr>minStars := 4\<rparr>) example_env
        (example_repo ''foo-docs'' 3 ''2024-01-01T00:00:00Z'') []) = []
   \<and> applyFilters example_config (example_repo ''foo-docs'' 3 ''2024-01-01T00:00:00Z'') = None"
proof -
  let ?bar = "(example_repo ''bar'' 9 ''2024-01-01T00:00:00Z'')\<lparr>archived := True\<rparr>"
  let ?docs = "example_repo ''foo-docs'' 3 ''2024-01-01T00:00:00Z''"
  let ?cfg4 = "example_config\<lparr>minStars := 4\<rparr>"
  have a: "applyFilters example_config ?bar = Some SkipArchived"
    by (simp add: applyFilters_def example_config_def example_repo_def)
  have b: "applyFilters ?cfg4 ?docs = Some SkipStars"
    by (simp add: applyFilters_def example_config_def example_repo_def)
  have c: "applyFilters example_config ?docs = None"
    by (simp add: applyFilters_def example_config_def example_repo_def)
  have r1: "loop_body example_config example_env ?bar [] = (Inr [], [])"
    using filter_rejects [of example_config ?bar example_env "[]" "[]"] a by simp
  have r2: "loop_body ?cfg4 example_env ?docs [] = (Inr [], [])"
    using filter_rejects [of ?cfg4 ?docs example_env "[]" "[]"] b by simp
  show ?thesis
    using a b c r1 r2 by simp
qed

subsection \<open>The loop\<close>

lemma checkPages_never_fails:
  "\<exists>found m. fst (checkPages cfg w repo) = Inr (found, m)"
  by (simp add: checkPages_eq Let_def)

lemma loop_body_result:
  "fst (loop_body cfg w repo projects) =
     Inr (if applyFilters cfg repo = None \<and> (\<exists>m. fst (checkPages cfg w repo) = Inr (True, m))
          then projects @ [formatProjectData cfg repo] else projects)"
proof -
  obtain found m where "fst (checkPages cfg w repo) = Inr (found, m)"
    using checkPages_never_fails by blast
  then show ?thesis
    by (cases "checkPages cfg w repo") (auto simp: loop_body_def split: option.splits)
qed

lemma main_loop_result:
  "fst (main_loop cfg w repos projects) =
     Inr (projects @ map (formatProjectData cfg)
            (filter (\<lambda>r. applyFilters cfg r = None
                         \<and> (\<exists>m. fst (checkPages cfg w r) = Inr (True, m))) repos))"
proof (induction repos arbitrary: projects)
  case Nil
  show ?case by simp
next
  case (Cons repo rest)
  let ?sel = "\<lambda>r. applyFilters cfg r = None \<and> (\<exists>m. fst (checkPages cfg w r) = Inr (True, m))"
  let ?ps = "if ?sel repo then projects @ [formatProjectData cfg repo] else projects"
  obtain made where step: "loop_body cfg w repo projects = (Inr ?ps, made)"
    using loop_body_result [of cfg w repo projects]
    by (cases "loop_body cfg w repo projects") simp
  obtain r made' where rest: "main_loop cfg w rest ?ps = (r, made')"
    by (cases "main_loop cfg w rest ?ps")
  have "r = Inr (?ps @ map (formatProjectData cfg) (filter ?sel rest))"
    using Cons.IH [of ?ps] rest by simp
  then have "r = Inr (projects @ map (formatProjectData cfg) (filter ?sel (repo # rest)))"
    by simp
  moreover have "fst (main_loop cfg w (repo # rest) projects) = r"
    using step rest by simp
  ultimately show ?case by simp
qed

subsection \<open>The sort\<close>

lemma mset_sort_insert: "mset (sort_insert cmp x ys) = add_mset x (mset ys)"
  by (induction ys) simp_all

lemma mset_Array_sort: "mset (Array_sort cmp xs) = mset xs"
  by (induction xs) (simp_all add: Array_sort_def mset_sort_insert)

lemma set_sort_insert: "set (sort_insert cmp x ys) = insert x (set ys)"
  by (induction ys) auto

lemma set_Array_sort: "set (Array_sort cmp xs) = set xs"
  by (induction xs) (simp_all add: Array_sort_def set_sort_insert)

lemma sorted_sort_insert:
  assumes total: "\<And>y. y \<in> set ys \<Longrightarrow> sort_before cmp x y \<or> sort_before cmp y x"
    and trans: "\<And>y z. y \<in> set ys \<Longrightarrow> z \<in> set ys \<Longrightarrow>
           sort_before cmp x y \<Longrightarrow> sort_before cmp y z \<Longrightarrow> sort_before cmp x z"
    and sorted: "sorted_wrt (sort_before cmp) ys"
  shows "sorted_wrt (sort_before cmp) (sort_insert cmp x ys)"
  using assms
proof (induction ys)
  case Nil
  show ?case by simp
next
  case (Cons y ys)
  have tail: "\<forall>z\<in>set ys. sort_before cmp y z" and sorted_ys: "sorted_wrt (sort_before cmp) ys"
    using Cons.prems(3) by simp_all
  show ?case
  proof (cases "sort_before cmp x y")
    case True
    have "sort_before cmp x z" if "z \<in> set ys" for z
    proof (rule Cons.prems(2) [of y z])
      show "y \<in> set (y # ys)" by simp
      show "z \<in> set (y # ys)" using that by simp
      show "sort_before cmp x y" by (rule True)
      show "sort_before cmp y z" using tail that by blast
    qed
    then have "\<forall>z\<in>set (y # ys). sort_before cmp x z"
      using True by simp
    then have "sorted_wrt (sort_before cmp) (x # y # ys)"
      using Cons.prems(3) by (simp only: sorted_wrt.simps) blast
    then show ?thesis
      using True by (simp only: sort_insert.simps if_True)
  next
    case False
    have "sort_before cmp x y \<or> sort_before cmp y x"
      by (rule Cons.prems(1)) simp
    then have yx: "sort_before cmp y x"
      using False by blast
    have "sorted_wrt (sort_before cmp) (sort_insert cmp x ys)"
    proof (rule Cons.IH)
      fix z assume "z \<in> set ys"
      then show "sort_before cmp x z \<or> sort_before cmp z x"
        using Cons.prems(1) [of z] by simp
    next
      fix u z assume "u \<in> set ys" "z \<in> set ys" "sort_before cmp x u" "sort_before cmp u z"
      then show "sort_before cmp x z"
        using Cons.prems(2) [of u z] by simp
    next
      show "sorted_wrt (sort_before cmp) ys" by (rule sorted_ys)
    qed
    moreover have "\<forall>z\<in>set (sort_insert cmp x ys). sort_before cmp y z"
      using yx tail by (simp add: set_sort_insert)
    ultimately have "sorted_wrt (sort_before cmp) (y # sort_insert cmp x ys)"
      by (simp only: sorted_wrt.simps)
    then show ?thesis
      using False by (simp only: sort_insert.simps if_False)
  qed
qed

lemma sorted_Array_sort:
  assumes total: "\<And>x y. x \<in> set xs \<Longrightarrow> y \<in> set xs \<Longrightarrow>
           sort_before cmp x y \<or> sort_before cmp y x"
    and trans: "\<And>x y z. x \<in> set xs \<Longrightarrow> y \<in> set xs \<Longrightarrow> z \<in> set xs \<Longrightarrow>
           sort_before cmp x y \<Longrightarrow> sort_before cmp y z \<Longrightarrow> sort_before cmp x z"
  shows "sorted_wrt (sort_before cmp) (Array_sort cmp xs)"
  using assms
proof (induction xs)
  case Nil
  show ?case by (simp add: Array_sort_def)
next
  case (Cons x xs)
  have IH: "sorted_wrt (sort_before cmp) (Array_sort cmp xs)"
  proof (rule Cons.IH)
    fix a b assume "a \<in> set xs" "b \<in> set xs"
    then show "sort_before cmp a b \<or> sort_before cmp b a"
      using Cons.prems(1) [of a b] by simp
  next
    fix a b c assume "a \<in> set xs" "b \<in> set xs" "c \<in> set xs"
      "sort_before cmp a b" "sort_before cmp b c"
    then show "sort_before cmp a c"
      using Cons.prems(2) [of a b c] by simp
  qed
  have "sorted_wrt (sort_before cmp) (sort_insert cmp x (Array_sort cmp xs))"
  proof (rule sorted_sort_insert)
    fix y assume "y \<in> set (Array_sort cmp xs)"
    then show "sort_before cmp x y \<or> sort_before cmp y x"
      using Cons.prems(1) [of x y] by (simp add: set_Array_sort)
  next
    fix y z assume "y \<in> set (Array_sort cmp xs)" "z \<in> set (Array_sort cmp xs)"
      "sort_before cmp x y" "sort_before cmp y z"
    then show "sort_before cmp x z"
      using Cons.prems(2) [of x y z] by (simp add: set_Array_sort)
  next
    show "sorted_wrt (sort_before cmp) (Array_sort cmp xs)" by (rule IH)
  qed
  then show ?case by (simp add: Array_sort_def)
qed

lemma sort_before_compareProjects:
  assumes "parse (updatedAt a) = Some ta" and "parse (updatedAt b) = Some tb"
  shows "sort_before (compareProjects parse) a b =
           (stars b < stars a \<or> stars a = stars b \<and> tb \<le> ta)"
  using assms by (auto simp: sort_before_def compareProjects_def)

lemma compareProjects_total:
  assumes "parse (updatedAt a) = Some ta" and "parse (updatedAt b) = Some tb"
  shows "sort_before (compareProjects parse) a b \<or> sort_before (compareProjects parse) b a"
  unfolding sort_before_compareProjects [OF assms] sort_before_compareProjects [OF assms(2,1)]
  by linarith

lemma compareProjects_trans:
  assumes "parse (updatedAt a) = Some ta" and "parse (updatedAt b) = Some tb"
    and "parse (updatedAt c) = Some tc"
    and "sort_before (compareProjects parse) a b" and "sort_before (compareProjects parse) b c"
  shows "sort_before (compareProjects parse) a c"
  using assms(4,5)
  unfolding sort_before_compareProjects [OF assms(1,2)] sort_before_compareProjects [OF assms(2,3)]
    sort_before_compareProjects [OF assms(1,3)]
  by linarith

subsection \<open>The run\<close>

lemma formatProjectData_name: "project.name (formatProjectData cfg r) = name r"
  by (simp add: formatProjectData_def Let_def)

lemma httpsGet_repos_ok:
  assumes "net (get_request u hs) = Response st body (Some v)" and "200 \<le> st" and "st < 300"
  shows "httpsGet net u hs = (Inr v, [get_request u hs])"
  using assms by (simp add: httpsGet_def Let_def)



lemma main_fetch_ok:
  assumes "api_repos w (get_request (REPOS_API cfg) (if token cfg \<noteq> [] then auth_headers cfg else []))
             = Response st body (Some repos)"
    and "200 \<le> st" and "st < 300"
  shows "exit_code (main cfg w fs) = 0 \<and>
         files (main cfg w fs) =
           fs(outputFile cfg \<mapsto> Array_sort (compareProjects (Date_parse w))
                (map (formatProjectData cfg)
                   (filter (\<lambda>r. applyFilters cfg r = None
                                \<and> (\<exists>m. fst (checkPages cfg w r) = Inr (True, m))) repos)))"
proof -
  let ?hs = "if token cfg \<noteq> [] then auth_headers cfg else []"
  have get: "httpsGet (api_repos w) (REPOS_API cfg) ?hs
               = (Inr repos, [get_request (REPOS_API cfg) ?hs])"
    using assms by (rule httpsGet_repos_ok)
  obtain made where loop: "main_loop cfg w repos [] =
      (Inr (map (formatProjectData cfg)
             (filter (\<lambda>r. applyFilters cfg r = None
                          \<and> (\<exists>m. fst (checkPages cfg w r) = Inr (True, m))) repos)), made)"
    using main_loop_result [of cfg w repos "[]"] by (cases "main_loop cfg w repos []") simp
  show ?thesis
    by (simp only: main_def Let_def get loop prod.case sum.case outcome.simps)
qed



lemma main_output_file:
  assumes fetch: "api_repos w (get_request (REPOS_API cfg)
                    (if token cfg \<noteq> [] then auth_headers cfg else []))
                  = Response st body (Some repos)"
    and ok: "200 \<le> st" "st < 300"
  shows "files (main cfg w fs) (outputFile cfg) = Some (Array_sort (compareProjects (Date_parse w)) (map (formatProjectData cfg) (filter (\<lambda>r. applyFilters cfg r = None \<and> (\<exists>m. fst (checkPages cfg w r) = Inr (True, m))) repos)))"
proof -
  note m = main_fetch_ok [OF fetch ok, of fs]
  from m have "files (main cfg w fs) = fs(outputFile cfg \<mapsto> Array_sort (compareProjects (Date_parse w))
                (map (formatProjectData cfg)
                   (filter (\<lambda>r. applyFilters cfg r = None
                                \<and> (\<exists>m. fst (checkPages cfg w r) = Inr (True, m))) repos)))"
    by (rule conjunct2)
  then show ?thesis by (simp only: fun_upd_same)
qed



lemma example_fetch:
  "api_repos example_env (list_request example_config) = Response 200 [] (Some example_repos)"
  by (simp add: example_env_def)

lemma example_selected:
  "filter (\<lambda>r. applyFilters example_config r = None
               \<and> (\<exists>m. fst (checkPages example_config example_env r) = Inr (True, m)))
     example_repos =
   [example_repo ''foo-docs'' 3 ''2024-01-01T00:00:00Z'',
    example_repo ''app'' 5 ''2024-01-01T00:00:00Z'',
    example_repo ''other.github.io'' 5 ''2024-06-01T00:00:00Z'']"
proof -
  have found: "(\<exists>m. fst (checkPages example_config example_env (example_repo n s t)) = Inr (True, m))
      = (n = ''app'' \<or> likelyHasPages (example_repo n s t))" for n s t
    by (simp add: checkPages_eq Let_def hasGitHubPagesAPI_def testPagesURL_def probe_request_def
        example_config_def example_env_def example_repo_def)
  have kept: "applyFilters example_config (example_repo n s t) = None" if "0 \<le> s" for n s t
    using that by (simp add: applyFilters_def example_config_def example_repo_def)
  have skipped: "applyFilters example_config ((example_repo n s t)\<lparr>archived := True\<rparr>) \<noteq> None"
    for n s t
    by (simp add: applyFilters_def example_config_def example_repo_def)
  have pat: "likelyHasPages (example_repo ''foo-docs'' 3 ''2024-01-01T00:00:00Z'')"
    "likelyHasPages (example_repo ''other.github.io'' 5 ''2024-06-01T00:00:00Z'')"
    "\<not> likelyHasPages (example_repo ''notes'' 7 ''2024-06-01T00:00:00Z'')"
    by (simp_all add: likelyHasPages_def pagesPatterns_def example_repo_def)
  show ?thesis
    unfolding example_repos_def by (simp add: found kept skipped pat)
qed

lemma example_sorted:
  "Array_sort (compareProjects (Date_parse example_env))
     (map (formatProjectData example_config)
        [example_repo ''foo-docs'' 3 ''2024-01-01T00:00:00Z'',
         example_repo ''app'' 5 ''2024-01-01T00:00:00Z'',
         example_repo ''other.github.io'' 5 ''2024-06-01T00:00:00Z'']) =
   map (formatProjectData example_config)
     [example_repo ''other.github.io'' 5 ''2024-06-01T00:00:00Z'',
      example_repo ''app'' 5 ''2024-01-01T00:00:00Z'',
      example_repo ''foo-docs'' 3 ''2024-01-01T00:00:00Z'']"
proof -
  have cmp: "sort_before (compareProjects (Date_parse example_env))
        (formatProjectData example_config (example_repo n s t))
        (formatProjectData example_config (example_repo n' s' t')) =
      (case compareProjects (Date_parse example_env)
        (formatProjectData example_config (example_repo n s t))
        (formatProjectData example_config (example_repo n' s' t')) of None \<Rightarrow> True | Some v \<Rightarrow> v \<le> 0)"
    for n s t n' s' t'
    by (simp add: sort_before_def)
  have c: "compareProjects (Date_parse example_env)
        (formatProjectData example_config (example_repo n s t))
        (formatProjectData example_config (example_repo n' s' t')) =
      (if s' \<noteq> s then Some (s' - s)
       else case (Date_parse example_env t', Date_parse example_env t) of
              (Some tb, Some ta) \<Rightarrow> Some (tb - ta) | _ \<Rightarrow> None)" for n s t n' s' t'
    by (simp add: compareProjects_def formatProjectData_def example_repo_def Let_def)
  have d: "Date_parse example_env ''2024-01-01T00:00:00Z'' = Some 1704067200000"
    "Date_parse example_env ''2024-06-01T00:00:00Z'' = Some 1717200000000"
    by (simp_all add: example_env_def)
  show ?thesis
    by (simp add: Array_sort_def cmp c d)
qed

lemma example_run:
  "files (main example_config example_env Map.empty) ''projects.json'' =
     Some (map (formatProjectData example_config)
       [example_repo ''other.github.io'' 5 ''2024-06-01T00:00:00Z'',
        example_repo ''app'' 5 ''2024-01-01T00:00:00Z'',
        example_repo ''foo-docs'' 3 ''2024-01-01T00:00:00Z''])"
proof -
  have "(200::nat) \<le> 200" "(200::nat) < 300" by simp_all
  with example_fetch [unfolded list_request_def]
  have "files (main example_config example_env Map.empty) (outputFile example_config) =
      Some (Array_sort (compareProjects (Date_parse example_env))
        (map (formatProjectData example_config)
           (filter (\<lambda>r. applyFilters example_config r = None
                       \<and> (\<exists>m. fst (checkPages example_config example_env r) = Inr (True, m)))
              example_repos)))"
    by (rule main_output_file)
  moreover have "outputFile example_config = ''projects.json''"
    by (simp add: example_config_def)
  ultimately show ?thesis
    by (simp only: example_selected example_sorted)
qed

text \<open>
  Claim C5: after a successful fetch of repositories with pairwise distinct names, the
  written array holds no record twice, and each of its records is the formatted form of
  exactly one fetched repository, one that passed the filters and for which the
  detection found Pages.
\<close>

theorem output_records:
  assumes fetch: "api_repos w (list_request cfg) = Response st body (Some repos)"
    and ok: "200 \<le> st" "st < 300"
    and names: "distinct (map name repos)"
  shows "\<exists>out. files (main cfg w fs) (outputFile cfg) = Some out
           \<and> distinct out
           \<and> distinct (map project.name out)
           \<and> (\<forall>p\<in>set out. \<exists>r\<in>set repos.
                 p = formatProjectData cfg r
                 \<and> applyFilters cfg r = None
                 \<and> (\<exists>m. fst (checkPages cfg w r) = Inr (True, m))
                 \<and> (\<forall>r'\<in>set repos. formatProjectData cfg r' = p \<longrightarrow> r' = r))"
proof -
  define sel where
    "sel = (\<lambda>r. applyFilters cfg r = None \<and> (\<exists>m. fst (checkPages cfg w r) = Inr (True, m)))"
  define found where "found = map (formatProjectData cfg) (filter sel repos)"
  define out where "out = Array_sort (compareProjects (Date_parse w)) found"
  have written: "files (main cfg w fs) (outputFile cfg) = Some out"
    unfolding out_def found_def sel_def using fetch [unfolded list_request_def] ok by (rule main_output_file)
  have found_eq: "map project.name found = map name (filter sel repos)"
    unfolding found_def by (simp add: formatProjectData_name comp_def)
  have found_names: "distinct (map project.name found)"
    unfolding found_eq using names by (rule distinct_map_filter)
  have "mset out = mset found"
    unfolding out_def by (rule mset_Array_sort)
  then have "mset (map project.name out) = mset (map project.name found)"
    by (simp only: mset_map)
  then have "distinct (map project.name out) = distinct (map project.name found)"
    by (rule mset_eq_imp_distinct_iff)
  then have out_names: "distinct (map project.name out)"
    using found_names by (rule iffD2)
  then have out_distinct: "distinct out"
    by (simp add: distinct_map)
  have inj: "inj_on name (set repos)"
    using names by (simp add: distinct_map)
  have origin: "\<exists>r\<in>set repos. p = formatProjectData cfg r \<and> applyFilters cfg r = None
           \<and> (\<exists>m. fst (checkPages cfg w r) = Inr (True, m))
           \<and> (\<forall>r'\<in>set repos. formatProjectData cfg r' = p \<longrightarrow> r' = r)"
    if p: "p \<in> set out" for p
  proof -
    from p have "p \<in> set found"
      unfolding out_def by (simp only: set_Array_sort)
    then obtain r where r: "r \<in> set repos" "sel r" "p = formatProjectData cfg r"
      unfolding found_def by auto
    have same: "r' = r" if r': "r' \<in> set repos" and eq: "formatProjectData cfg r' = p" for r'
    proof -
      have "project.name (formatProjectData cfg r') = project.name (formatProjectData cfg r)"
        using eq r(3) by simp
      then have "name r' = name r"
        by (simp only: formatProjectData_name)
      with inj r' r(1) show ?thesis
        by (simp add: inj_on_def)
    qed
    from r(2) have "applyFilters cfg r = None" "\<exists>m. fst (checkPages cfg w r) = Inr (True, m)"
      unfolding sel_def by simp_all
    with r(1,3) same show ?thesis
      by blast
  qed
  show ?thesis
    using written out_distinct out_names origin by blast
qed

theorem output_records_witness:
  "api_repos example_env (list_request example_config) = Response 200 [] (Some example_repos)
   \<and> distinct (map name example_repos)
   \<and> (\<exists>out. files (main example_config example_env Map.empty) ''projects.json'' = Some out
         \<and> map project.name out = [''other.github.io'', ''app'', ''foo-docs'']
         \<and> distinct out
         \<and> (\<forall>p\<in>set out. \<exists>r\<in>set example_repos.
               p = formatProjectData example_config r
               \<and> applyFilters example_config r = None
               \<and> (\<exists>m. fst (checkPages example_config example_env r) = Inr (True, m))
               \<and> (\<forall>r'\<in>set example_repos. formatProjectData example_config r' = p \<longrightarrow> r' = r)))"
proof -
  have names: "distinct (map name example_repos)"
    by (simp add: example_repos_def example_repo_def)
  have ok: "(200::nat) \<le> 200" "(200::nat) < 300"
    by simp_all
  have path: "outputFile example_config = ''projects.json''"
    by (simp add: example_config_def)
  from output_records [OF example_fetch ok names, of Map.empty]
  obtain out where all: "files (main example_config example_env Map.empty) (outputFile example_config) = Some out
           \<and> distinct out
           \<and> distinct (map project.name out)
           \<and> (\<forall>p\<in>set out. \<exists>r\<in>set example_repos.
                 p = formatProjectData example_config r
                 \<and> applyFilters example_config r = None
                 \<and> (\<exists>m. fst (checkPages example_config example_env r) = Inr (True, m))
                 \<and> (\<forall>r'\<in>set example_repos. formatProjectData example_config r' = p \<longrightarrow> r' = r))" ..
  have out: "files (main example_config example_env Map.empty) ''projects.json'' = Some out"
    using all [THEN conjunct1] by (simp only: path)
  have out_eq: "out = map (formatProjectData example_config)
       [example_repo ''other.github.io'' 5 ''2024-06-01T00:00:00Z'',
        example_repo ''app'' 5 ''2024-01-01T00:00:00Z'',
        example_repo ''foo-docs'' 3 ''2024-01-01T00:00:00Z'']"
    using out by (simp only: example_run option.inject)
  have out_names: "map project.name out = [''other.github.io'', ''app'', ''foo-docs'']"
    unfolding out_eq by (simp add: formatProjectData_name example_repo_def)
  show ?thesis
  proof (intro conjI exI)
    show "api_repos example_env (list_request example_config) = Response 200 [] (Some example_repos)"
      by (rule example_fetch)
    show "distinct (map name example_repos)" by (rule names)
    show "files (main example_config example_env Map.empty) ''projects.json'' = Some out"
      by (rule out)
    show "map project.name out = [''other.github.io'', ''app'', ''foo-docs'']"
      by (rule out_names)
    show "distinct out"
      by (rule all [THEN conjunct2, THEN conjunct1])
    show "\<forall>p\<in>set out. \<exists>r\<in>set example_repos.
               p = formatProjectData example_config r
               \<and> applyFilters example_config r = None
               \<and> (\<exists>m. fst (checkPages example_config example_env r) = Inr (True, m))
               \<and> (\<forall>r'\<in>set example_repos. formatProjectData example_config r' = p \<longrightarrow> r' = r)"
      by (rule all [THEN conjunct2, THEN conjunct2, THEN conjunct2])
  qed
qed

text \<open>
  Claim C6: after a successful fetch of repositories whose \<open>updated_at\<close> the runtime
  parses as a date, every adjacent pair \<open>A\<close>, \<open>B\<close> of the written array has
  \<open>A.stars > B.stars\<close>, or equal stars and the time value of \<open>A.updatedAt\<close> at least
  that of \<open>B.updatedAt\<close>.
\<close>

theorem output_sorted:
  assumes fetch: "api_repos w (list_request cfg) = Response st body (Some repos)"
    and ok: "200 \<le> st" "st < 300"
    and dates: "\<forall>r\<in>set repos. Date_parse w (updated_at r) \<noteq> None"
  shows "\<exists>out. files (main cfg w fs) (outputFile cfg) = Some out
           \<and> (\<forall>i. Suc i < length out \<longrightarrow>
                 stars (out ! Suc i) < stars (out ! i)
                 \<or> stars (out ! i) = stars (out ! Suc i)
                   \<and> (\<exists>ta tb. Date_parse w (updatedAt (out ! i)) = Some ta
                          \<and> Date_parse w (updatedAt (out ! Suc i)) = Some tb
                          \<and> tb \<le> ta))"
proof -
  define sel where
    "sel = (\<lambda>r. applyFilters cfg r = None \<and> (\<exists>m. fst (checkPages cfg w r) = Inr (True, m)))"
  define found where "found = map (formatProjectData cfg) (filter sel repos)"
  define parse where "parse = Date_parse w"
  define out where "out = Array_sort (compareProjects parse) found"
  have written: "files (main cfg w fs) (outputFile cfg) = Some out"
    unfolding out_def found_def sel_def parse_def using fetch [unfolded list_request_def] ok by (rule main_output_file)
  have valid: "\<exists>t. parse (updatedAt p) = Some t" if p: "p \<in> set found" for p
  proof -
    from p obtain r where r: "r \<in> set repos" "p = formatProjectData cfg r"
      unfolding found_def by auto
    have "updatedAt p = updated_at r"
      unfolding r(2) by (simp add: formatProjectData_def Let_def)
    moreover have "Date_parse w (updated_at r) \<noteq> None"
      using dates r(1) by (rule bspec)
    ultimately show ?thesis
      unfolding parse_def by simp
  qed
  have sorted: "sorted_wrt (sort_before (compareProjects parse)) out"
    unfolding out_def
  proof (rule sorted_Array_sort)
    fix a b assume "a \<in> set found" "b \<in> set found"
    then obtain ta tb where "parse (updatedAt a) = Some ta" "parse (updatedAt b) = Some tb"
      using valid by blast
    then show "sort_before (compareProjects parse) a b \<or> sort_before (compareProjects parse) b a"
      by (rule compareProjects_total [where parse = parse])
  next
    fix a b c assume mem: "a \<in> set found" "b \<in> set found" "c \<in> set found"
      and ab: "sort_before (compareProjects parse) a b"
      and bc: "sort_before (compareProjects parse) b c"
    from valid [OF mem(1)] obtain ta where ta: "parse (updatedAt a) = Some ta" ..
    from valid [OF mem(2)] obtain tb where tb: "parse (updatedAt b) = Some tb" ..
    from valid [OF mem(3)] obtain tc where tc: "parse (updatedAt c) = Some tc" ..
    from ta tb tc ab bc show "sort_before (compareProjects parse) a c"
      by (rule compareProjects_trans [where parse = parse])
  qed
  have adjacent: "stars (out ! Suc i) < stars (out ! i)
      \<or> stars (out ! i) = stars (out ! Suc i)
        \<and> (\<exists>ta tb. parse (updatedAt (out ! i)) = Some ta
               \<and> parse (updatedAt (out ! Suc i)) = Some tb \<and> tb \<le> ta)"
    if i: "Suc i < length out" for i
  proof -
    have "i < Suc i" by simp
    with sorted have step: "sort_before (compareProjects parse) (out ! i) (out ! Suc i)"
      using i by (rule sorted_wrt_nth_less)
    have "out ! i \<in> set out" "out ! Suc i \<in> set out"
      using i by simp_all
    then have "out ! i \<in> set found" "out ! Suc i \<in> set found"
      unfolding out_def by (simp_all only: set_Array_sort)
    then obtain ta tb where t: "parse (updatedAt (out ! i)) = Some ta"
      "parse (updatedAt (out ! Suc i)) = Some tb"
      using valid by blast
    have "stars (out ! Suc i) < stars (out ! i)
        \<or> stars (out ! i) = stars (out ! Suc i) \<and> tb \<le> ta"
      using step sort_before_compareProjects [where parse = parse, OF t] by simp
    with t show ?thesis by blast
  qed
  show ?thesis
    using written adjacent unfolding parse_def by blast
qed

theorem output_sorted_witness:
  "api_repos example_env (list_request example_config) = Response 200 [] (Some example_repos)
   \<and> list_all (\<lambda>r. Date_parse example_env (updated_at r) \<noteq> None) example_repos
   \<and> (\<exists>out. files (main example_config example_env Map.empty) ''projects.json'' = Some out
         \<and> map (\<lambda>p. (project.name p, stars p, updatedAt p)) out =
             [(''other.github.io'', 5, ''2024-06-01T00:00:00Z''),
              (''app'', 5, ''2024-01-01T00:00:00Z''),
              (''foo-docs'', 3, ''2024-01-01T00:00:00Z'')]
         \<and> (\<forall>i. Suc i < length out \<longrightarrow>
               stars (out ! Suc i) < stars (out ! i)
               \<or> stars (out ! i) = stars (out ! Suc i)
                 \<and> (\<exists>ta tb. Date_parse example_env (updatedAt (out ! i)) = Some ta
                        \<and> Date_parse example_env (updatedAt (out ! Suc i)) = Some tb
                        \<and> tb \<le> ta)))"
proof -
  have dates: "list_all (\<lambda>r. Date_parse example_env (updated_at r) \<noteq> None) example_repos"
    by (simp add: example_repos_def example_repo_def example_env_def)
  then have dates': "\<forall>r\<in>set example_repos. Date_parse example_env (updated_at r) \<noteq> None"
    by (simp only: list_all_iff)
  have ok: "(200::nat) \<le> 200" "(200::nat) < 300"
    by simp_all
  have path: "outputFile example_config = ''projects.json''"
    by (simp add: example_config_def)
  from output_sorted [OF example_fetch ok dates', of Map.empty]
  obtain out where all: "files (main example_config example_env Map.empty) (outputFile example_config) = Some out
         \<and> (\<forall>i. Suc i < length out \<longrightarrow>
               stars (out ! Suc i) < stars (out ! i)
               \<or> stars (out ! i) = stars (out ! Suc i)
                 \<and> (\<exists>ta tb. Date_parse example_env (updatedAt (out ! i)) = Some ta
                        \<and> Date_parse example_env (updatedAt (out ! Suc i)) = Some tb
                        \<and> tb \<le> ta))" ..
  have out: "files (main example_config example_env Map.empty) ''projects.json'' = Some out"
    using all [THEN conjunct1] by (simp only: path)
  have out_eq: "out = map (formatProjectData example_config)
       [example_repo ''other.github.io'' 5 ''2024-06-01T00:00:00Z'',
        example_repo ''app'' 5 ''2024-01-01T00:00:00Z'',
        example_repo ''foo-docs'' 3 ''2024-01-01T00:00:00Z'']"
    using out by (simp only: example_run option.inject)
  have listed: "map (\<lambda>p. (project.name p, stars p, updatedAt p)) out =
             [(''other.github.io'', 5, ''2024-06-01T00:00:00Z''),
              (''app'', 5, ''2024-01-01T00:00:00Z''),
              (''foo-docs'', 3, ''2024-01-01T00:00:00Z'')]"
    unfolding out_eq by (simp add: formatProjectData_def example_repo_def)
  show ?thesis
  proof (intro conjI exI)
    show "api_repos example_env (list_request example_config) = Response 200 [] (Some example_repos)"
      by (rule example_fetch)
    show "list_all (\<lambda>r. Date_parse example_env (updated_at r) \<noteq> None) example_repos"
      by (rule dates)
    show "files (main example_config example_env Map.empty) ''projects.json'' = Some out"
      by (rule out)
    show "map (\<lambda>p. (project.name p, stars p, updatedAt p)) out =
             [(''other.github.io'', 5, ''2024-06-01T00:00:00Z''),
              (''app'', 5, ''2024-01-01T00:00:00Z''),
              (''foo-docs'', 3, ''2024-01-01T00:00:00Z'')]"
      by (rule listed)
    show "\<forall>i. Suc i < length out \<longrightarrow>
               stars (out ! Suc i) < stars (out ! i)
               \<or> stars (out ! i) = stars (out ! Suc i)
                 \<and> (\<exists>ta tb. Date_parse example_env (updatedAt (out ! i)) = Some ta
                        \<and> Date_parse example_env (updatedAt (out ! Suc i)) = Some tb
                        \<and> tb \<le> ta)"
      by (rule all [THEN conjunct2])
  qed
qed




end
